theory Spec2Isabelle
  imports Main
begin

section \<open>The argument bots of argubots.py\<close>

text \<open>
  The four response methods of \<^verbatim>\<open>argubots.py\<close> (KialoAgent, ContextualKialoAgent,
  RAGAgent, AwsomAgent) are glue code over three collaborators that live outside the file:
  the Kialo corpus object, the chat-completion client and Python's \<^verbatim>\<open>random\<close> module.
  The collaborators are parameters of the model. Their mutable internals live in an opaque
  world of type \<open>'w\<close> that every external call may read and change; every exception is a
  value of type \<open>error\<close>; every call to a collaborator is recorded in a call log, so that
  the order and the arguments of the calls can be stated.
\<close>

subsection \<open>Values\<close>

text \<open>
  A Python \<^verbatim>\<open>str\<close> is a sequence of Unicode code points. \<open>lit\<close> turns a literal of the
  source, written in ASCII, into that sequence.
\<close>

type_synonym str = "nat list"

definition lit :: "string \<Rightarrow> str" where
  "lit cs = map of_char cs"

datatype error =
    AssertionError string
  | IndexError string
  | KeyError str
  | Raised string

text \<open>
  \<open>Raised x\<close> is an exception raised inside a collaborator, \<open>x\<close> naming it. The other three
  are the exceptions the statements of the file itself can raise, with their message (the
  missing key for a KeyError).
\<close>

record turn =
  speaker :: str
  content :: str

type_synonym Dialogue = "turn list"

text \<open>A message \<^verbatim>\<open>{"role": r, "content": c}\<close> is \<open>Message r c\<close>.\<close>

datatype message = Message str str

text \<open>
  A completion is read only through \<^verbatim>\<open>.choices[0].message.content\<close>: each choice is
  represented by the content string of its message.
\<close>

record completion =
  choices :: "str list"

datatype event =
    Retrieve str nat str
  | RandomChain
  | Generate "message list" str
  | LogInfo str

text \<open>
  \<open>Retrieve q n k\<close> is a call \<^verbatim>\<open>closest_claims(q, n=n, kind=k)\<close>, \<open>Generate ms m\<close> a call
  \<^verbatim>\<open>chat.completions.create(messages=ms, model=m)\<close>, \<open>RandomChain\<close> a call
  \<^verbatim>\<open>random_chain()\<close> and \<open>LogInfo t\<close> a call \<^verbatim>\<open>log.info(t)\<close>.
\<close>

subsection \<open>Collaborators and program state\<close>

record 'w Kialo =
  closest_claims :: "str \<Rightarrow> nat \<Rightarrow> str \<Rightarrow> 'w \<Rightarrow> (error + str list) \<times> 'w"
  cons :: "'w \<Rightarrow> str \<Rightarrow> str list option"
  random_chain :: "'w \<Rightarrow> (error + str list) \<times> 'w"

record 'w Client =
  create :: "message list \<Rightarrow> str \<Rightarrow> 'w \<Rightarrow> (error + completion) \<times> 'w"

record 'w Random =
  randbelow :: "nat \<Rightarrow> 'w \<Rightarrow> nat \<times> 'w"

text \<open>
  The instance attributes of the four classes: \<^verbatim>\<open>name\<close> and \<^verbatim>\<open>kialo\<close> for the two
  lookup agents, \<^verbatim>\<open>name\<close>, \<^verbatim>\<open>model\<close>, \<^verbatim>\<open>client\<close> (and \<^verbatim>\<open>kialo\<close>) for the two
  generative ones. Each response method reads only the attributes of its own class.
\<close>

record 'w agent =
  name :: str
  kialo :: "'w Kialo"
  model :: str
  client :: "'w Client"

text \<open>
  The state a call \<^verbatim>\<open>self.response(d)\<close> runs in: the agent object, the dialogue object,
  the world of the collaborators and the log of the calls made so far. The methods hand the
  collaborators strings and message lists built for the call, never the agent or the
  dialogue, so a collaborator changes the world only.
\<close>

record 'w state =
  self_obj :: "'w agent"
  dialogue :: Dialogue
  world :: 'w
  calls :: "event list"

subsection \<open>String operations\<close>

text \<open>\<^verbatim>\<open>sep.join(xs)\<close>\<close>

fun join :: "str \<Rightarrow> str list \<Rightarrow> str" where
  "join sep [] = []"
| "join sep [x] = x"
| "join sep (x # y # ys) = x @ sep @ join sep (y # ys)"

text \<open>
  The code points \<^verbatim>\<open>str.strip()\<close> removes, those Python counts as whitespace: tab to
  carriage return, the separators 0x1C to 0x1F, space, next line (0x85), no-break space
  (0xA0), ogham space mark (0x1680), en quad to hair space (0x2000 to 0x200A), line and
  paragraph separator (0x2028, 0x2029), narrow no-break space (0x202F), medium mathematical
  space (0x205F) and ideographic space (0x3000).
\<close>

definition isspace :: "nat \<Rightarrow> bool" where
  "isspace c =
     ((0x09 \<le> c \<and> c \<le> 0x0D) \<or> (0x1C \<le> c \<and> c \<le> 0x20) \<or> c = 0x85 \<or> c = 0xA0
      \<or> c = 0x1680 \<or> (0x2000 \<le> c \<and> c \<le> 0x200A) \<or> c = 0x2028 \<or> c = 0x2029
      \<or> c = 0x202F \<or> c = 0x205F \<or> c = 0x3000)"

text \<open>\<^verbatim>\<open>t.strip()\<close>\<close>

definition strip :: "str \<Rightarrow> str" where
  "strip t = rev (dropWhile isspace (rev (dropWhile isspace t)))"

subsection \<open>Calls to the collaborators\<close>

definition call_closest_claims ::
  "str \<Rightarrow> nat \<Rightarrow> str \<Rightarrow> 'w state \<Rightarrow> (error + str list) \<times> 'w state" where
  "call_closest_claims q n knd s =
     (let (r, w) = closest_claims (kialo (self_obj s)) q n knd (world s)
      in (r, s\<lparr>world := w, calls := calls s @ [Retrieve q n knd]\<rparr>))"

definition call_random_chain :: "'w state \<Rightarrow> (error + str list) \<times> 'w state" where
  "call_random_chain s =
     (let (r, w) = random_chain (kialo (self_obj s)) (world s)
      in (r, s\<lparr>world := w, calls := calls s @ [RandomChain]\<rparr>))"

definition call_create ::
  "message list \<Rightarrow> str \<Rightarrow> 'w state \<Rightarrow> (error + completion) \<times> 'w state" where
  "call_create ms m s =
     (let (r, w) = create (client (self_obj s)) ms m (world s)
      in (r, s\<lparr>world := w, calls := calls s @ [Generate ms m]\<rparr>))"

definition log_info :: "str \<Rightarrow> 'w state \<Rightarrow> 'w state" where
  "log_info t s = s\<lparr>calls := calls s @ [LogInfo t]\<rparr>"

text \<open>
  \<^verbatim>\<open>random.choice(seq)\<close>: IndexError on an empty sequence, otherwise
  \<^verbatim>\<open>seq[self._randbelow(len(seq))]\<close>, where the indexing raises if the draw is out of range.
\<close>

definition random_choice :: "'w Random \<Rightarrow> 'a list \<Rightarrow> 'w state \<Rightarrow> (error + 'a) \<times> 'w state" where
  "random_choice random seq s =
     (if seq = [] then (Inl (IndexError ''Cannot choose from an empty sequence''), s)
      else (let (i, w) = randbelow random (length seq) (world s)
            in (if i < length seq then Inr (seq ! i)
                else Inl (IndexError ''list index out of range''),
                s\<lparr>world := w\<rparr>)))"

text \<open>\<^verbatim>\<open>c.choices[0].message.content\<close>\<close>

definition first_content :: "completion \<Rightarrow> error + str" where
  "first_content c =
     (case choices c of
        [] \<Rightarrow> Inl (IndexError ''list index out of range'')
      | x # _ \<Rightarrow> Inr x)"

subsection \<open>KialoAgent.response\<close>

text \<open>The text handed to \<^verbatim>\<open>log.info\<close> once a candidate is chosen.\<close>

definition chose_message :: "str \<Rightarrow> str" where
  "chose_message neighbor =
     lit ''[black on bright_green]Chose similar claim from Kialo:'' @ [0x0A] @ neighbor
     @ lit ''[/black on bright_green]''"

text \<open>
  Lines 51 to 68. \<^verbatim>\<open>d[-1]['content']\<close> is read on a non-empty dialogue only;
  \<^verbatim>\<open>assert neighbors\<close> fails on the empty list (assertions are executed, as they are
  unless the interpreter runs with \<^verbatim>\<open>-O\<close>); \<^verbatim>\<open>self.kialo.cons[neighbor]\<close> raises on a
  key the dictionary does not have.
\<close>

definition KialoAgent_response :: "'w Random \<Rightarrow> 'w state \<Rightarrow> (error + str) \<times> 'w state" where
  "KialoAgent_response random s =
     (if length (dialogue s) = 0 then
        (case call_random_chain s of
           (Inl e, s1) \<Rightarrow> (Inl e, s1)
         | (Inr chain, s1) \<Rightarrow>
             (case chain of
                [] \<Rightarrow> (Inl (IndexError ''list index out of range''), s1)
              | claim # _ \<Rightarrow> (Inr claim, s1)))
      else
        (let previous_turn = content (last (dialogue s)) in
         case call_closest_claims previous_turn 3 (lit ''has_cons'') s of
           (Inl e, s1) \<Rightarrow> (Inl e, s1)
         | (Inr neighbors, s1) \<Rightarrow>
             if neighbors = [] then
               (Inl (AssertionError ''No claims to choose from; is Kialo data structure empty?''), s1)
             else
               (case random_choice random neighbors s1 of
                  (Inl e, s2) \<Rightarrow> (Inl e, s2)
                | (Inr neighbor, s2) \<Rightarrow>
                    (let s3 = log_info (chose_message neighbor) s2
                     in case cons (kialo (self_obj s3)) (world s3) neighbor of
                          None \<Rightarrow> (Inl (KeyError neighbor), s3)
                        | Some cs \<Rightarrow> random_choice random cs s3))))"

subsection \<open>ContextualKialoAgent.response\<close>

text \<open>
  The query: \<^verbatim>\<open>" ".join(history[-3:])\<close>, the contents of the last three turns (all of
  them when there are fewer), oldest first, separated by one space.
\<close>

definition weighted_query :: "Dialogue \<Rightarrow> str" where
  "weighted_query dlg =
     (let history = map content dlg
      in join (lit '' '') (drop (length history - 3) history))"

text \<open>
  Lines 79 to 90. The method overrides the one of KialoAgent and has no branch for the empty
  dialogue.
\<close>

definition ContextualKialoAgent_response ::
  "'w Random \<Rightarrow> 'w state \<Rightarrow> (error + str) \<times> 'w state" where
  "ContextualKialoAgent_response random s =
     (case call_closest_claims (weighted_query (dialogue s)) 3 (lit ''has_cons'') s of
        (Inl e, s1) \<Rightarrow> (Inl e, s1)
      | (Inr results, s1) \<Rightarrow>
          if results \<noteq> [] then random_choice random results s1
          else (Inr (lit ''I'm sorry, I couldn't find a relevant response.''), s1))"

subsection \<open>RAGAgent.response\<close>

text \<open>
  \<^verbatim>\<open>d[-1]["content"] if d else ""\<close>: a dialogue is a sequence (KialoAgent takes its
  \<^verbatim>\<open>len\<close>), so it is false exactly when it is empty.
\<close>

definition last_turn_of :: "Dialogue \<Rightarrow> str" where
  "last_turn_of dlg = (if dlg \<noteq> [] then content (last dlg) else lit '''')"

definition paraphrase_prompt :: "str \<Rightarrow> message list" where
  "paraphrase_prompt last_turn =
     [Message (lit ''system'')
        (lit ''Paraphrase the following statement to make it more explicit and detailed:''),
      Message (lit ''user'') last_turn]"

definition final_prompt :: "str \<Rightarrow> str \<Rightarrow> message list" where
  "final_prompt claims_summary last_turn =
     [Message (lit ''system'')
        (lit ''Generate a response based on the user's statement and the following related claims:''
         @ [0x0A] @ claims_summary),
      Message (lit ''user'') last_turn]"

text \<open>Lines 103 to 127.\<close>

definition RAGAgent_response :: "'w state \<Rightarrow> (error + str) \<times> 'w state" where
  "RAGAgent_response s =
     (let last_turn = last_turn_of (dialogue s) in
      case call_create (paraphrase_prompt last_turn) (model (self_obj s)) s of
        (Inl e, s1) \<Rightarrow> (Inl e, s1)
      | (Inr query, s1) \<Rightarrow>
          (case first_content query of
             Inl e \<Rightarrow> (Inl e, s1)
           | Inr c1 \<Rightarrow>
               (let explicit_statement = strip c1 in
                case call_closest_claims explicit_statement 3 (lit ''has_cons'') s1 of
                  (Inl e, s2) \<Rightarrow> (Inl e, s2)
                | (Inr related_claims, s2) \<Rightarrow>
                    (let claims_summary = join [0x0A] related_claims in
                     case call_create (final_prompt claims_summary last_turn)
                                      (model (self_obj s2)) s2 of
                       (Inl e, s3) \<Rightarrow> (Inl e, s3)
                     | (Inr final_response, s3) \<Rightarrow>
                         (case first_content final_response of
                            Inl e \<Rightarrow> (Inl e, s3)
                          | Inr c2 \<Rightarrow> (Inr (strip c2), s3))))))"


subsection \<open>AwsomAgent.response\<close>

definition thought_prompt :: "str \<Rightarrow> message list" where
  "thought_prompt last_turn =
     [Message (lit ''system'')
        (lit ''You are a helpful assistant that analyzes dialogue to infer intent and emotional tone.''),
      Message (lit ''user'')
        (lit ''Analyze the following human statement and summarize their intent, tone, and possible motivations: ''
         @ last_turn)]"

definition response_prompt :: "str \<Rightarrow> str \<Rightarrow> message list" where
  "response_prompt private_thought last_turn =
     [Message (lit ''system'')
        (lit ''You are an assistant that responds thoughtfully to human dialogue based on analyzed context.''),
      Message (lit ''user'')
        (lit ''Using the following analysis: '' @ private_thought
         @ lit '', generate a helpful and contextually appropriate response to the statement: ''
         @ last_turn)]"

text \<open>Lines 140 to 162.\<close>

definition AwsomAgent_response :: "'w state \<Rightarrow> (error + str) \<times> 'w state" where
  "AwsomAgent_response s =
     (let last_turn = last_turn_of (dialogue s) in
      case call_create (thought_prompt last_turn) (model (self_obj s)) s of
        (Inl e, s1) \<Rightarrow> (Inl e, s1)
      | (Inr c, s1) \<Rightarrow>
          (case first_content c of
             Inl e \<Rightarrow> (Inl e, s1)
           | Inr c1 \<Rightarrow>
               (let private_thought = strip c1 in
                case call_create (response_prompt private_thought last_turn)
                                 (model (self_obj s1)) s1 of
                  (Inl e, s2) \<Rightarrow> (Inl e, s2)
                | (Inr c', s2) \<Rightarrow>
                    (case first_content c' of
                       Inl e \<Rightarrow> (Inl e, s2)
                     | Inr c2 \<Rightarrow> (Inr (strip c2), s2)))))"

subsection \<open>A small corpus and scripted collaborators\<close>

text \<open>
  Concrete collaborators, on which the response methods can be run. The world is a counter
  of the draws and generation calls made so far. The corpus has two claims with opposition,
  \<open>A\<close> (opposed by \<open>C\<close> and \<open>D\<close>) and \<open>B\<close> (opposed by \<open>E\<close>).
\<close>

definition demo_kialo :: "nat Kialo" where
  "demo_kialo =
     \<lparr>closest_claims = (\<lambda>q n knd w. (Inr (take n [lit ''A'', lit ''B'']), w)),
      cons = (\<lambda>w. [lit ''A'' \<mapsto> [lit ''C'', lit ''D''], lit ''B'' \<mapsto> [lit ''E'']]),
      random_chain = (\<lambda>w. (Inr [lit ''A'', lit ''C''], w))\<rparr>"

definition empty_kialo :: "nat Kialo" where
  "empty_kialo =
     \<lparr>closest_claims = (\<lambda>q n knd w. (Inr [], w)),
      cons = (\<lambda>w. Map.empty),
      random_chain = (\<lambda>w. (Inl (IndexError ''Cannot choose from an empty sequence''), w))\<rparr>"

definition demo_random :: "nat Random" where
  "demo_random = \<lparr>randbelow = (\<lambda>n w. (w mod n, Suc w))\<rparr>"

text \<open>A client that answers its k-th call with the k-th reply of a script, and fails after it.\<close>

definition scripted_client :: "(error + completion) list \<Rightarrow> nat Client" where
  "scripted_client replies =
     \<lparr>create = (\<lambda>ms m w. (if w < length replies then replies ! w
                            else Inl (Raised ''quota''), Suc w))\<rparr>"

definition reply :: "str \<Rightarrow> error + completion" where
  "reply t = Inr \<lparr>choices = [t]\<rparr>"

definition demo_agent :: "nat Kialo \<Rightarrow> (error + completion) list \<Rightarrow> nat agent" where
  "demo_agent k replies =
     \<lparr>name = lit ''Demo'', kialo = k, model = lit ''m'', client = scripted_client replies\<rparr>"

definition demo_state :: "nat agent \<Rightarrow> Dialogue \<Rightarrow> nat \<Rightarrow> nat state" where
  "demo_state a dlg w = \<lparr>self_obj = a, dialogue = dlg, world = w, calls = []\<rparr>"

definition says :: "str \<Rightarrow> turn" where
  "says t = \<lparr>speaker = lit ''human'', content = t\<rparr>"

text \<open>
  Two completions as a client may send them, with whitespace around the text: a next-line
  character, spaces and a no-break space around \<open>pets\<close>; an em space, spaces, an ideographic
  space and a line feed around \<open>cats rule\<close>.
\<close>

definition raw_pets :: str where
  "raw_pets = [0x85] @ lit '' pets '' @ [0xA0]"

definition raw_cats :: str where
  "raw_cats = [0x2003] @ lit '' cats rule '' @ [0x3000, 0x0A]"

text \<open>
  States to run the generative agents on: a client that answers both calls, one that fails
  at the first call, one that fails at the second, the first again on an empty transcript,
  and a client whose second answer repeats its first.
\<close>

definition rag_demo :: "nat state" where
  "rag_demo =
     demo_state (demo_agent demo_kialo [reply raw_pets, reply raw_cats])
       [says (lit ''Dogs'')] 0"

definition fail_first :: "nat state" where
  "fail_first = demo_state (demo_agent demo_kialo [Inl (Raised ''timeout'')]) [says (lit ''Dogs'')] 0"

definition fail_second :: "nat state" where
  "fail_second =
     demo_state (demo_agent demo_kialo [reply raw_pets, Inl (Raised ''timeout'')])
       [says (lit ''Dogs'')] 0"


definition echo_demo :: "nat state" where
  "echo_demo =
     demo_state (demo_agent demo_kialo [reply (lit ''pets''), reply (lit ''pets'')])
       [says (lit ''Dogs'')] 0"

section \<open>Properties\<close>

subsection \<open>Auxiliary facts\<close>

lemma strip_pets: "strip raw_pets = lit ''pets''"
  by (simp add: strip_def isspace_def lit_def raw_pets_def)

lemma strip_cats: "strip raw_cats = lit ''cats rule''"
  by (simp add: strip_def isspace_def lit_def raw_cats_def)

lemma first_content_single: "first_content \<lparr>choices = [t]\<rparr> = Inr t"
  by (simp add: first_content_def)

lemma RAGAgent_response_paraphrase_fails:
  assumes "create (client (self_obj s)) (paraphrase_prompt (last_turn_of (dialogue s)))
             (model (self_obj s)) (world s) = (Inl e, w1)"
  shows "RAGAgent_response s
           = (Inl e, s\<lparr>world := w1,
                      calls := calls s @ [Generate (paraphrase_prompt (last_turn_of (dialogue s)))
                                            (model (self_obj s))]\<rparr>)"
  using assms by (simp add: RAGAgent_response_def call_create_def Let_def)

lemma RAGAgent_response_final_fails:
  assumes "create (client (self_obj s)) (paraphrase_prompt (last_turn_of (dialogue s)))
             (model (self_obj s)) (world s) = (Inr q, w1)"
      and "first_content q = Inr c1"
      and "closest_claims (kialo (self_obj s)) (strip c1) 3 (lit ''has_cons'') w1 = (Inr rc, w2)"
      and "create (client (self_obj s))
             (final_prompt (join [0x0A] rc) (last_turn_of (dialogue s)))
             (model (self_obj s)) w2 = (Inl e, w3)"
  shows "RAGAgent_response s
           = (Inl e, s\<lparr>world := w3,
                      calls := calls s @
                        [Generate (paraphrase_prompt (last_turn_of (dialogue s))) (model (self_obj s)),
                         Retrieve (strip c1) 3 (lit ''has_cons''),
                         Generate (final_prompt (join [0x0A] rc) (last_turn_of (dialogue s)))
                           (model (self_obj s))]\<rparr>)"
  using assms
  by (simp add: RAGAgent_response_def call_create_def call_closest_claims_def Let_def)





lemma AwsomAgent_response_analysis_fails:
  assumes "create (client (self_obj s)) (thought_prompt (last_turn_of (dialogue s)))
             (model (self_obj s)) (world s) = (Inl e, w1)"
  shows "AwsomAgent_response s
           = (Inl e, s\<lparr>world := w1,
                      calls := calls s @ [Generate (thought_prompt (last_turn_of (dialogue s)))
                                            (model (self_obj s))]\<rparr>)"
  using assms by (simp add: AwsomAgent_response_def call_create_def Let_def)

lemma AwsomAgent_response_final_fails:
  assumes "create (client (self_obj s)) (thought_prompt (last_turn_of (dialogue s)))
             (model (self_obj s)) (world s) = (Inr c, w1)"
      and "first_content c = Inr c1"
      and "create (client (self_obj s))
             (response_prompt (strip c1) (last_turn_of (dialogue s)))
             (model (self_obj s)) w1 = (Inl e, w2)"
  shows "AwsomAgent_response s
           = (Inl e, s\<lparr>world := w2,
                      calls := calls s @
                        [Generate (thought_prompt (last_turn_of (dialogue s))) (model (self_obj s)),
                         Generate (response_prompt (strip c1) (last_turn_of (dialogue s)))
                           (model (self_obj s))]\<rparr>)"
  using assms by (simp add: AwsomAgent_response_def call_create_def Let_def)

lemma AwsomAgent_response_succeeds:
  assumes "create (client (self_obj s)) (thought_prompt (last_turn_of (dialogue s)))
             (model (self_obj s)) (world s) = (Inr c, w1)"
      and "first_content c = Inr c1"
      and "create (client (self_obj s))
             (response_prompt (strip c1) (last_turn_of (dialogue s)))
             (model (self_obj s)) w1 = (Inr c', w2)"
      and "first_content c' = Inr c2"
  shows "AwsomAgent_response s
           = (Inr (strip c2), s\<lparr>world := w2,
                      calls := calls s @
                        [Generate (thought_prompt (last_turn_of (dialogue s))) (model (self_obj s)),
                         Generate (response_prompt (strip c1) (last_turn_of (dialogue s)))
                           (model (self_obj s))]\<rparr>)"
  using assms by (simp add: AwsomAgent_response_def call_create_def Let_def)

lemma AwsomAgent_response_returns:
  assumes "fst (AwsomAgent_response s) = Inr utterance"
  shows "\<exists>c w1 c1 c' w2 c2.
           create (client (self_obj s)) (thought_prompt (last_turn_of (dialogue s)))
             (model (self_obj s)) (world s) = (Inr c, w1)
         \<and> first_content c = Inr c1
         \<and> create (client (self_obj s))
             (response_prompt (strip c1) (last_turn_of (dialogue s)))
             (model (self_obj s)) w1 = (Inr c', w2)
         \<and> first_content c' = Inr c2
         \<and> utterance = strip c2"
  using assms
  by (auto simp add: AwsomAgent_response_def call_create_def Let_def
        split: prod.splits sum.splits)

lemma AwsomAgent_response_first_call:
  "\<exists>rest. calls (snd (AwsomAgent_response s))
      = calls s @ Generate (thought_prompt (last_turn_of (dialogue s))) (model (self_obj s)) # rest"
  by (auto simp add: AwsomAgent_response_def call_create_def Let_def
        split: prod.splits sum.splits)

lemma AwsomAgent_response_calls:
  "\<exists>evs. calls (snd (AwsomAgent_response s)) = calls s @ evs \<and> length evs \<le> 2
         \<and> (\<forall>ev \<in> set evs. \<exists>ms m. ev = Generate ms m)"
  by (auto simp add: AwsomAgent_response_def call_create_def Let_def
        split: prod.splits sum.splits)


lemma KialoAgent_response_frame:
  "self_obj (snd (KialoAgent_response random s)) = self_obj s
   \<and> dialogue (snd (KialoAgent_response random s)) = dialogue s"
  by (auto simp add: KialoAgent_response_def call_random_chain_def call_closest_claims_def
        random_choice_def log_info_def Let_def
        split: prod.splits sum.splits list.splits option.splits)

lemma ContextualKialoAgent_response_frame:
  "self_obj (snd (ContextualKialoAgent_response random s)) = self_obj s
   \<and> dialogue (snd (ContextualKialoAgent_response random s)) = dialogue s"
  by (auto simp add: ContextualKialoAgent_response_def call_closest_claims_def
        random_choice_def Let_def
        split: prod.splits sum.splits)

lemma RAGAgent_response_frame:
  "self_obj (snd (RAGAgent_response s)) = self_obj s
   \<and> dialogue (snd (RAGAgent_response s)) = dialogue s"
  by (auto simp add: RAGAgent_response_def call_create_def call_closest_claims_def Let_def
        split: prod.splits sum.splits)

lemma AwsomAgent_response_frame:
  "self_obj (snd (AwsomAgent_response s)) = self_obj s
   \<and> dialogue (snd (AwsomAgent_response s)) = dialogue s"
  by (auto simp add: AwsomAgent_response_def call_create_def Let_def
        split: prod.splits sum.splits)

lemma rag_demo_basics:
  "last_turn_of (dialogue rag_demo) = lit ''Dogs''"
  "model (self_obj rag_demo) = lit ''m''"
  "calls rag_demo = []"
  "world rag_demo = 0"
  "create (client (self_obj rag_demo)) ms (lit ''m'') 0 = (Inr \<lparr>choices = [raw_pets]\<rparr>, 1)"
  "create (client (self_obj rag_demo)) ms (lit ''m'') 1 = (Inr \<lparr>choices = [raw_cats]\<rparr>, 2)"
  "create (client (self_obj rag_demo)) ms (lit ''m'') (Suc 0) = (Inr \<lparr>choices = [raw_cats]\<rparr>, 2)"
  "closest_claims (kialo (self_obj rag_demo)) qq 3 (lit ''has_cons'') w = (Inr [lit ''A'', lit ''B''], w)"
  by (simp_all add: rag_demo_def demo_state_def demo_agent_def scripted_client_def
        demo_kialo_def reply_def last_turn_of_def says_def)


lemma fail_first_facts:
  "last_turn_of (dialogue fail_first) = lit ''Dogs''"
  "model (self_obj fail_first) = lit ''m''"
  "calls fail_first = []"
  "create (client (self_obj fail_first)) ms (lit ''m'') 0 = (Inl (Raised ''timeout''), 1)"
  by (simp_all add: fail_first_def demo_state_def demo_agent_def scripted_client_def
        last_turn_of_def says_def)

lemma fail_first_world: "world fail_first = 0"
  by (simp add: fail_first_def demo_state_def)

lemma fail_second_facts:
  "last_turn_of (dialogue fail_second) = lit ''Dogs''"
  "model (self_obj fail_second) = lit ''m''"
  "calls fail_second = []"
  "world fail_second = 0"
  "create (client (self_obj fail_second)) ms (lit ''m'') 0 = (Inr \<lparr>choices = [raw_pets]\<rparr>, 1)"
  "closest_claims (kialo (self_obj fail_second)) q 3 (lit ''has_cons'') w = (Inr [lit ''A'', lit ''B''], w)"
  "create (client (self_obj fail_second)) ms (lit ''m'') 1 = (Inl (Raised ''timeout''), 2)"
  "create (client (self_obj fail_second)) ms (lit ''m'') (Suc 0) = (Inl (Raised ''timeout''), 2)"
  by (simp_all add: fail_second_def demo_state_def demo_agent_def scripted_client_def
        demo_kialo_def reply_def last_turn_of_def says_def)


lemma RAGAgent_response_fail_second:
  "RAGAgent_response fail_second
     = (Inl (Raised ''timeout''),
        fail_second\<lparr>world := 2,
          calls := [Generate (paraphrase_prompt (lit ''Dogs'')) (lit ''m''),
                    Retrieve (lit ''pets'') 3 (lit ''has_cons''),
                    Generate (final_prompt ((lit ''A'') @ [0x0A] @ (lit ''B'')) (lit ''Dogs'')) (lit ''m'')]\<rparr>)"
  using RAGAgent_response_final_fails [of fail_second "\<lparr>choices = [raw_pets]\<rparr>" 1 "raw_pets"
      "[lit ''A'', lit ''B'']" 1 "Raised ''timeout''" 2]
  by (simp add: fail_second_facts first_content_single strip_pets)


lemma AwsomAgent_response_private_aux:
  "(create (client (self_obj s)) (thought_prompt (last_turn_of (dialogue s)))
      (model (self_obj s)) (world s) = (Inr c, w1)
    \<and> first_content c = Inr c1
    \<and> create (client (self_obj s))
        (response_prompt (strip c1) (last_turn_of (dialogue s)))
        (model (self_obj s)) w1 = (Inr c', w2)
    \<and> first_content c' = Inr c2
    \<longrightarrow> AwsomAgent_response s
          = (Inr (strip c2),
             s\<lparr>world := w2,
               calls := calls s @
                 [Generate (thought_prompt (last_turn_of (dialogue s))) (model (self_obj s)),
                  Generate (response_prompt (strip c1) (last_turn_of (dialogue s)))
                    (model (self_obj s))]\<rparr>))
   \<and> (fst (AwsomAgent_response s) = Inr utterance
    \<longrightarrow> (\<exists>c w1 c1 c' w2 c2.
           create (client (self_obj s)) (thought_prompt (last_turn_of (dialogue s)))
             (model (self_obj s)) (world s) = (Inr c, w1)
         \<and> first_content c = Inr c1
         \<and> create (client (self_obj s))
             (response_prompt (strip c1) (last_turn_of (dialogue s)))
             (model (self_obj s)) w1 = (Inr c', w2)
         \<and> first_content c' = Inr c2
         \<and> utterance = strip c2
         \<and> calls (snd (AwsomAgent_response s))
             = calls s @
                 [Generate (thought_prompt (last_turn_of (dialogue s))) (model (self_obj s)),
                  Generate (response_prompt (strip c1) (last_turn_of (dialogue s)))
                    (model (self_obj s))]))
   \<and> dialogue (snd (AwsomAgent_response s)) = dialogue s
   \<and> (\<exists>evs. calls (snd (AwsomAgent_response s)) = calls s @ evs \<and> length evs \<le> 2
         \<and> (\<forall>ev \<in> set evs. \<exists>ms m. ev = Generate ms m))"
proof (intro conjI impI)
  assume "create (client (self_obj s)) (thought_prompt (last_turn_of (dialogue s)))
      (model (self_obj s)) (world s) = (Inr c, w1)
    \<and> first_content c = Inr c1
    \<and> create (client (self_obj s))
        (response_prompt (strip c1) (last_turn_of (dialogue s)))
        (model (self_obj s)) w1 = (Inr c', w2)
    \<and> first_content c' = Inr c2"
  then show "AwsomAgent_response s
          = (Inr (strip c2),
             s\<lparr>world := w2,
               calls := calls s @
                 [Generate (thought_prompt (last_turn_of (dialogue s))) (model (self_obj s)),
                  Generate (response_prompt (strip c1) (last_turn_of (dialogue s)))
                    (model (self_obj s))]\<rparr>)"
    by (blast intro: AwsomAgent_response_succeeds)
next
  assume "fst (AwsomAgent_response s) = Inr utterance"
  from AwsomAgent_response_returns [OF this]
  obtain c w1 c1 c' w2 c2 where
    p: "create (client (self_obj s)) (thought_prompt (last_turn_of (dialogue s)))
             (model (self_obj s)) (world s) = (Inr c, w1)"
       "first_content c = Inr c1"
       "create (client (self_obj s))
             (response_prompt (strip c1) (last_turn_of (dialogue s)))
             (model (self_obj s)) w1 = (Inr c', w2)"
       "first_content c' = Inr c2"
       "utterance = strip c2"
    by blast
  from AwsomAgent_response_succeeds [OF p(1-4)]
  have "calls (snd (AwsomAgent_response s))
             = calls s @
                 [Generate (thought_prompt (last_turn_of (dialogue s))) (model (self_obj s)),
                  Generate (response_prompt (strip c1) (last_turn_of (dialogue s)))
                    (model (self_obj s))]"
    by simp
  with p show "\<exists>c w1 c1 c' w2 c2.
           create (client (self_obj s)) (thought_prompt (last_turn_of (dialogue s)))
             (model (self_obj s)) (world s) = (Inr c, w1)
         \<and> first_content c = Inr c1
         \<and> create (client (self_obj s))
             (response_prompt (strip c1) (last_turn_of (dialogue s)))
             (model (self_obj s)) w1 = (Inr c', w2)
         \<and> first_content c' = Inr c2
         \<and> utterance = strip c2
         \<and> calls (snd (AwsomAgent_response s))
             = calls s @
                 [Generate (thought_prompt (last_turn_of (dialogue s))) (model (self_obj s)),
                  Generate (response_prompt (strip c1) (last_turn_of (dialogue s)))
                    (model (self_obj s))]"
    by blast
next
  show "dialogue (snd (AwsomAgent_response s)) = dialogue s"
    by (simp add: AwsomAgent_response_frame)
next
  show "\<exists>evs. calls (snd (AwsomAgent_response s)) = calls s @ evs \<and> length evs \<le> 2
         \<and> (\<forall>ev \<in> set evs. \<exists>ms m. ev = Generate ms m)"
    by (rule AwsomAgent_response_calls)
qed






lemma echo_demo_basics:
  "last_turn_of (dialogue echo_demo) = lit ''Dogs''"
  "model (self_obj echo_demo) = lit ''m''"
  "calls echo_demo = []"
  "world echo_demo = 0"
  "create (client (self_obj echo_demo)) ms (lit ''m'') 0 = (Inr \<lparr>choices = [lit ''pets'']\<rparr>, 1)"
  "create (client (self_obj echo_demo)) ms (lit ''m'') 1 = (Inr \<lparr>choices = [lit ''pets'']\<rparr>, 2)"
  "create (client (self_obj echo_demo)) ms (lit ''m'') (Suc 0) = (Inr \<lparr>choices = [lit ''pets'']\<rparr>, 2)"
  by (simp_all add: echo_demo_def demo_state_def demo_agent_def scripted_client_def reply_def
        last_turn_of_def says_def)

lemma strip_plain_pets: "strip (lit ''pets'') = lit ''pets''"
  by (simp add: strip_def isspace_def lit_def)

lemma demo_dialogues:
  "dialogue rag_demo = [says (lit ''Dogs'')]"
  "dialogue fail_first = [says (lit ''Dogs'')]"
  "dialogue fail_second = [says (lit ''Dogs'')]"
  "content (says t) = t"
  by (simp_all add: rag_demo_def fail_first_def fail_second_def demo_state_def says_def)


subsection \<open>The lookup agents\<close>

text \<open>
  C1. On a non-empty dialogue, KialoAgent.response makes exactly one retrieval call, with the
  content of the most recent turn as the query, \<open>n = 3\<close> and kind \<^verbatim>\<open>has_cons\<close>, and nothing
  else but a log line. It returns a text exactly when the retrieval returns candidates, the
  draw \<open>i\<close> of the random source below the number of candidates is in range, the corpus
  lists con children \<open>cs\<close> for candidate \<open>i\<close>, and the second draw \<open>j\<close> below the number of
  those children is in range; the text is then con child \<open>j\<close> of candidate \<open>i\<close>. Each pick
  is one draw of \<^verbatim>\<open>random.choice\<close> over the whole list, so it is uniform whenever the
  random source is.
\<close>

theorem KialoAgent_response_lookup:
  assumes "dialogue s \<noteq> []"
  shows "(\<exists>rest. calls (snd (KialoAgent_response random s))
             = calls s @ Retrieve (content (last (dialogue s))) 3 (lit ''has_cons'') # rest
           \<and> (\<forall>e \<in> set rest. \<exists>t. e = LogInfo t))
       \<and> (fst (KialoAgent_response random s) = Inr utterance \<longleftrightarrow>
           (\<exists>neighbors w1 i w2 cs j w3.
              closest_claims (kialo (self_obj s)) (content (last (dialogue s))) 3 (lit ''has_cons'') (world s)
                = (Inr neighbors, w1)
            \<and> randbelow random (length neighbors) w1 = (i, w2) \<and> i < length neighbors
            \<and> cons (kialo (self_obj s)) w2 (neighbors ! i) = Some cs
            \<and> randbelow random (length cs) w2 = (j, w3) \<and> j < length cs
            \<and> utterance = cs ! j))"
proof -
  obtain r w1 where cc: "closest_claims (kialo (self_obj s)) (content (last (dialogue s))) 3 (lit ''has_cons'') (world s) = (r, w1)"
    by (cases "closest_claims (kialo (self_obj s)) (content (last (dialogue s))) 3 (lit ''has_cons'') (world s)")
  show ?thesis
  proof (cases r)
    case (Inl e)
    with assms cc show ?thesis
      by (simp add: KialoAgent_response_def call_closest_claims_def)
  next
    case (Inr neighbors)
    show ?thesis
    proof (cases "neighbors = []")
      case True
      with assms cc Inr show ?thesis
        by (simp add: KialoAgent_response_def call_closest_claims_def)
    next
      case False
      obtain i w2 where rb: "randbelow random (length neighbors) w1 = (i, w2)"
        by (cases "randbelow random (length neighbors) w1")
      show ?thesis
      proof (cases "i < length neighbors")
        case oob: False
        with assms cc Inr False rb show ?thesis
          by (simp add: KialoAgent_response_def call_closest_claims_def random_choice_def)
      next
        case True
        show ?thesis
        proof (cases "cons (kialo (self_obj s)) w2 (neighbors ! i)")
          case None
          with assms cc Inr False rb True show ?thesis
            by (simp add: KialoAgent_response_def call_closest_claims_def random_choice_def log_info_def Let_def)
        next
          case (Some cs)
          obtain j w3 where rb2: "randbelow random (length cs) w2 = (j, w3)"
            by (cases "randbelow random (length cs) w2")
          with assms cc Inr False rb True Some show ?thesis
            by (auto simp add: KialoAgent_response_def call_closest_claims_def random_choice_def log_info_def Let_def)
        qed
      qed
    qed
  qed
qed

theorem KialoAgent_response_lookup_witness:
  "dialogue (demo_state (demo_agent demo_kialo []) [says (lit ''Dogs'')] 0) \<noteq> []
   \<and> fst (KialoAgent_response demo_random (demo_state (demo_agent demo_kialo []) [says (lit ''Dogs'')] 0))
       = Inr (lit ''D'')"
proof -
  let ?s = "demo_state (demo_agent demo_kialo []) [says (lit ''Dogs'')] 0"
  have h: "dialogue ?s \<noteq> []"
    by (simp add: demo_state_def)
  have ex: "\<exists>neighbors w1 i w2 cs j w3.
              closest_claims (kialo (self_obj ?s)) (content (last (dialogue ?s))) 3 (lit ''has_cons'') (world ?s)
                = (Inr neighbors, w1)
            \<and> randbelow demo_random (length neighbors) w1 = (i, w2) \<and> i < length neighbors
            \<and> cons (kialo (self_obj ?s)) w2 (neighbors ! i) = Some cs
            \<and> randbelow demo_random (length cs) w2 = (j, w3) \<and> j < length cs
            \<and> (lit ''D'') = cs ! j"
    apply (rule exI [of _ "[lit ''A'', lit ''B'']"])
    apply (rule exI [of _ 0])
    apply (rule exI [of _ 0])
    apply (rule exI [of _ 1])
    apply (rule exI [of _ "[lit ''C'', lit ''D'']"])
    apply (rule exI [of _ 1])
    apply (rule exI [of _ 2])
    apply (simp add: demo_state_def demo_agent_def demo_kialo_def demo_random_def says_def lit_def)
    done
  from KialoAgent_response_lookup [OF h, of demo_random "(lit ''D'')"] ex
  have "fst (KialoAgent_response demo_random ?s) = Inr (lit ''D'')"
    by blast
  with h show ?thesis by blast
qed

text \<open>
  C8. On a non-empty dialogue, when the retrieval of KialoAgent.response returns the empty
  list, the method stops with the AssertionError of its \<^verbatim>\<open>assert neighbors\<close>, right after
  the retrieval call and without returning a text; when the retrieval returns a non-empty
  list, no AssertionError comes out of the method.
\<close>

theorem KialoAgent_response_assertion:
  assumes "dialogue s \<noteq> []"
      and "closest_claims (kialo (self_obj s)) (content (last (dialogue s))) 3 (lit ''has_cons'') (world s)
             = (Inr neighbors, w1)"
  shows "(neighbors = [] \<longrightarrow>
            KialoAgent_response random s
              = (Inl (AssertionError ''No claims to choose from; is Kialo data structure empty?''),
                 s\<lparr>world := w1,
                   calls := calls s @ [Retrieve (content (last (dialogue s))) 3 (lit ''has_cons'')]\<rparr>))
       \<and> (neighbors \<noteq> [] \<longrightarrow>
            (\<forall>m. fst (KialoAgent_response random s) \<noteq> Inl (AssertionError m)))"
  using assms
  by (auto simp add: KialoAgent_response_def call_closest_claims_def random_choice_def
        log_info_def Let_def split: prod.splits option.splits)

theorem KialoAgent_response_assertion_witness:
  "fst (KialoAgent_response demo_random (demo_state (demo_agent empty_kialo []) [says (lit ''Dogs'')] 0))
     = Inl (AssertionError ''No claims to choose from; is Kialo data structure empty?'')
   \<and> (\<forall>m. fst (KialoAgent_response demo_random (demo_state (demo_agent demo_kialo []) [says (lit ''Dogs'')] 0))
            \<noteq> Inl (AssertionError m))"
proof -
  let ?e = "demo_state (demo_agent empty_kialo []) [says (lit ''Dogs'')] 0"
  let ?s = "demo_state (demo_agent demo_kialo []) [says (lit ''Dogs'')] 0"
  have he: "dialogue ?e \<noteq> []" and hs: "dialogue ?s \<noteq> []"
    by (simp_all add: demo_state_def)
  have ce: "closest_claims (kialo (self_obj ?e)) (content (last (dialogue ?e))) 3 (lit ''has_cons'') (world ?e)
              = (Inr [], 0)"
    by (simp add: demo_state_def demo_agent_def empty_kialo_def)
  have cs: "closest_claims (kialo (self_obj ?s)) (content (last (dialogue ?s))) 3 (lit ''has_cons'') (world ?s)
              = (Inr [lit ''A'', lit ''B''], 0)"
    by (simp add: demo_state_def demo_agent_def demo_kialo_def)
  from KialoAgent_response_assertion [OF he ce, of demo_random]
  have "fst (KialoAgent_response demo_random ?e)
          = Inl (AssertionError ''No claims to choose from; is Kialo data structure empty?'')"
    by simp
  moreover from KialoAgent_response_assertion [OF hs cs, of demo_random]
  have "\<forall>m. fst (KialoAgent_response demo_random ?s) \<noteq> Inl (AssertionError m)"
    by simp
  ultimately show ?thesis by blast
qed

text \<open>
  C5. When the retrieval of ContextualKialoAgent.response returns no candidates, the method
  returns the fixed apology string and raises nothing. This holds for every dialogue, the
  non-empty ones included.
\<close>

theorem ContextualKialoAgent_response_fallback:
  assumes "closest_claims (kialo (self_obj s)) (weighted_query (dialogue s)) 3 (lit ''has_cons'') (world s)
             = (Inr [], w1)"
  shows "ContextualKialoAgent_response random s
           = (Inr (lit ''I'm sorry, I couldn't find a relevant response.''),
              s\<lparr>world := w1,
                calls := calls s @ [Retrieve (weighted_query (dialogue s)) 3 (lit ''has_cons'')]\<rparr>)"
  using assms by (simp add: ContextualKialoAgent_response_def call_closest_claims_def)

theorem ContextualKialoAgent_response_fallback_witness:
  "fst (ContextualKialoAgent_response demo_random
          (demo_state (demo_agent empty_kialo []) [says (lit ''Cats''), says (lit ''Dogs'')] 0))
     = Inr (lit ''I'm sorry, I couldn't find a relevant response.'')"
proof -
  let ?e = "demo_state (demo_agent empty_kialo []) [says (lit ''Cats''), says (lit ''Dogs'')] 0"
  have ce: "closest_claims (kialo (self_obj ?e)) (weighted_query (dialogue ?e)) 3 (lit ''has_cons'') (world ?e)
              = (Inr [], 0)"
    by (simp add: demo_state_def demo_agent_def empty_kialo_def)
  from ContextualKialoAgent_response_fallback [OF ce, of demo_random]
  show ?thesis by simp
qed

text \<open>
  C2. ContextualKialoAgent.response run on the one-turn dialogue \<open>Dogs\<close> over the small
  corpus: the retrieval returns the candidates \<open>A\<close> and \<open>B\<close>, and the method returns the
  candidate \<open>A\<close> itself, which is none of the con children \<open>C\<close>, \<open>D\<close>, \<open>E\<close>. KialoAgent.response
  on the same state returns the con child \<open>D\<close>.
\<close>

theorem ContextualKialoAgent_response_returns_candidate:
  "fst (ContextualKialoAgent_response demo_random
          (demo_state (demo_agent demo_kialo []) [says (lit ''Dogs'')] 0)) = Inr (lit ''A'')
   \<and> closest_claims demo_kialo (lit ''Dogs'') 3 (lit ''has_cons'') 0 = (Inr [lit ''A'', lit ''B''], 0)
   \<and> cons demo_kialo 1 (lit ''A'') = Some [lit ''C'', lit ''D'']
   \<and> cons demo_kialo 1 (lit ''B'') = Some [lit ''E'']
   \<and> fst (KialoAgent_response demo_random
            (demo_state (demo_agent demo_kialo []) [says (lit ''Dogs'')] 0)) = Inr (lit ''D'')"
  by (simp add: ContextualKialoAgent_response_def KialoAgent_response_def weighted_query_def
        call_closest_claims_def random_choice_def log_info_def Let_def
        demo_state_def demo_agent_def demo_kialo_def demo_random_def says_def lit_def)

subsection \<open>The generative agents\<close>




text \<open>
  C6 as stated fails in two ways. With a client whose second answer repeats its first, the
  text AwsomAgent.response returns is the private analysis itself: \<open>pets\<close> is the analysis
  written into the second prompt and also the text returned. With a client whose first call
  raises, one generation call is made and no text is returned.
\<close>

theorem AwsomAgent_response_private_counterexample:
  "fst (AwsomAgent_response echo_demo) = Inr (lit ''pets'')
   \<and> calls (snd (AwsomAgent_response echo_demo))
     = [Generate
          [Message (lit ''system'')
             (lit ''You are a helpful assistant that analyzes dialogue to infer intent and emotional tone.''),
           Message (lit ''user'')
             (lit ''Analyze the following human statement and summarize their intent, tone, and possible motivations: ''
              @ (lit ''Dogs''))]
          (lit ''m''),
        Generate
          [Message (lit ''system'')
             (lit ''You are an assistant that responds thoughtfully to human dialogue based on analyzed context.''),
           Message (lit ''user'')
             (lit ''Using the following analysis: '' @ lit ''pets''
              @ lit '', generate a helpful and contextually appropriate response to the statement: ''
              @ (lit ''Dogs''))]
          (lit ''m'')]
   \<and> fst (AwsomAgent_response fail_first) = Inl (Raised ''timeout'')
   \<and> calls (snd (AwsomAgent_response fail_first))
     = [Generate
          [Message (lit ''system'')
             (lit ''You are a helpful assistant that analyzes dialogue to infer intent and emotional tone.''),
           Message (lit ''user'')
             (lit ''Analyze the following human statement and summarize their intent, tone, and possible motivations: ''
              @ (lit ''Dogs''))]
          (lit ''m'')]"
proof -
  have "AwsomAgent_response echo_demo
          = (Inr (lit ''pets''),
             echo_demo\<lparr>world := 2,
               calls := [Generate (thought_prompt (lit ''Dogs'')) (lit ''m''),
                         Generate (response_prompt (lit ''pets'') (lit ''Dogs'')) (lit ''m'')]\<rparr>)"
    using AwsomAgent_response_succeeds [of echo_demo "\<lparr>choices = [lit ''pets'']\<rparr>" 1 "lit ''pets''"
        "\<lparr>choices = [lit ''pets'']\<rparr>" 2 "lit ''pets''"]
    by (simp add: echo_demo_basics first_content_single strip_plain_pets)
  moreover have "AwsomAgent_response fail_first
          = (Inl (Raised ''timeout''),
             fail_first\<lparr>world := 1,
               calls := [Generate (thought_prompt (lit ''Dogs'')) (lit ''m'')]\<rparr>)"
    using AwsomAgent_response_analysis_fails [of fail_first "Raised ''timeout''" 1]
    by (simp add: fail_first_facts fail_first_world)
  ultimately show ?thesis
    by (simp add: thought_prompt_def response_prompt_def)
qed

text \<open>
  C6, amended. Let \<open>lt\<close> be the content of the last turn (the empty string on the empty
  dialogue). AwsomAgent.response always begins with a generation call asking for the
  analysis of \<open>lt\<close>, makes at most two calls, all of them generation calls, and leaves the
  dialogue as it was. When both calls succeed, the user message of the second call holds the
  stripped analysis and \<open>lt\<close>, and the method returns exactly the stripped content of the
  second completion; it returns a text in no other case. The method puts nothing of the
  analysis into the returned text itself: the text holds it only if the second completion
  does.
\<close>

theorem AwsomAgent_response_private:
  assumes lt: "lt = (if dialogue s \<noteq> [] then content (last (dialogue s)) else lit '''')"
      and m: "m = model (self_obj s)"
  shows "(\<exists>rest. calls (snd (AwsomAgent_response s))
             = calls s @ Generate
                 [Message (lit ''system'')
                    (lit ''You are a helpful assistant that analyzes dialogue to infer intent and emotional tone.''),
                  Message (lit ''user'')
                    (lit ''Analyze the following human statement and summarize their intent, tone, and possible motivations: ''
                     @ lt)]
                 m # rest)
       \<and> (create (client (self_obj s))
               [Message (lit ''system'')
                  (lit ''You are a helpful assistant that analyzes dialogue to infer intent and emotional tone.''),
                Message (lit ''user'')
                  (lit ''Analyze the following human statement and summarize their intent, tone, and possible motivations: ''
                   @ lt)]
               m (world s) = (Inr q, w1)
           \<and> first_content q = Inr c1
           \<and> create (client (self_obj s))
               [Message (lit ''system'')
                  (lit ''You are an assistant that responds thoughtfully to human dialogue based on analyzed context.''),
                Message (lit ''user'')
                  (lit ''Using the following analysis: '' @ strip c1
                   @ lit '', generate a helpful and contextually appropriate response to the statement: ''
                   @ lt)]
               m w1 = (Inr fr, w2)
           \<and> first_content fr = Inr c2
           \<longrightarrow> AwsomAgent_response s
               = (Inr (strip c2),
                  s\<lparr>world := w2,
                    calls := calls s @
                      [Generate
                         [Message (lit ''system'')
                            (lit ''You are a helpful assistant that analyzes dialogue to infer intent and emotional tone.''),
                          Message (lit ''user'')
                            (lit ''Analyze the following human statement and summarize their intent, tone, and possible motivations: ''
                             @ lt)]
                         m,
                       Generate
                         [Message (lit ''system'')
                            (lit ''You are an assistant that responds thoughtfully to human dialogue based on analyzed context.''),
                          Message (lit ''user'')
                            (lit ''Using the following analysis: '' @ strip c1
                             @ lit '', generate a helpful and contextually appropriate response to the statement: ''
                             @ lt)]
                         m]\<rparr>))
       \<and> (fst (AwsomAgent_response s) = Inr utterance
           \<longrightarrow> (\<exists>q w1 c1 fr w2 c2.
                create (client (self_obj s))
                    [Message (lit ''system'')
                       (lit ''You are a helpful assistant that analyzes dialogue to infer intent and emotional tone.''),
                     Message (lit ''user'')
                       (lit ''Analyze the following human statement and summarize their intent, tone, and possible motivations: ''
                        @ lt)]
                    m (world s) = (Inr q, w1)
                \<and> first_content q = Inr c1
                \<and> create (client (self_obj s))
                    [Message (lit ''system'')
                       (lit ''You are an assistant that responds thoughtfully to human dialogue based on analyzed context.''),
                     Message (lit ''user'')
                       (lit ''Using the following analysis: '' @ strip c1
                        @ lit '', generate a helpful and contextually appropriate response to the statement: ''
                        @ lt)]
                    m w1 = (Inr fr, w2)
                \<and> first_content fr = Inr c2
                \<and> utterance = strip c2
                \<and> calls (snd (AwsomAgent_response s))
                  = calls s @
                    [Generate
                       [Message (lit ''system'')
                          (lit ''You are a helpful assistant that analyzes dialogue to infer intent and emotional tone.''),
                        Message (lit ''user'')
                          (lit ''Analyze the following human statement and summarize their intent, tone, and possible motivations: ''
                           @ lt)]
                       m,
                     Generate
                       [Message (lit ''system'')
                          (lit ''You are an assistant that responds thoughtfully to human dialogue based on analyzed context.''),
                        Message (lit ''user'')
                          (lit ''Using the following analysis: '' @ strip c1
                           @ lit '', generate a helpful and contextually appropriate response to the statement: ''
                           @ lt)]
                       m]))
       \<and> dialogue (snd (AwsomAgent_response s)) = dialogue s
       \<and> (\<exists>evs. calls (snd (AwsomAgent_response s)) = calls s @ evs \<and> length evs \<le> 2
             \<and> (\<forall>ev \<in> set evs. \<exists>ms mdl. ev = Generate ms mdl))"
proof -
  have e: "lt = last_turn_of (dialogue s)"
    using lt by (simp add: last_turn_of_def)
  show ?thesis
    unfolding thought_prompt_def [symmetric] response_prompt_def [symmetric] e m
    by (intro conjI AwsomAgent_response_first_call
          AwsomAgent_response_private_aux [THEN conjunct1]
          AwsomAgent_response_private_aux [THEN conjunct2, THEN conjunct1]
          AwsomAgent_response_frame [THEN conjunct2]
          AwsomAgent_response_calls)
qed

theorem AwsomAgent_response_private_witness:
  "lit ''Dogs'' = (if dialogue rag_demo \<noteq> [] then content (last (dialogue rag_demo)) else lit '''')
   \<and> lit ''m'' = model (self_obj rag_demo)
   \<and> AwsomAgent_response rag_demo
     = (Inr (lit ''cats rule''),
        rag_demo\<lparr>world := 2,
          calls :=
            [Generate
               [Message (lit ''system'')
                  (lit ''You are a helpful assistant that analyzes dialogue to infer intent and emotional tone.''),
                Message (lit ''user'')
                  (lit ''Analyze the following human statement and summarize their intent, tone, and possible motivations: ''
                   @ (lit ''Dogs''))]
               (lit ''m''),
             Generate
               [Message (lit ''system'')
                  (lit ''You are an assistant that responds thoughtfully to human dialogue based on analyzed context.''),
                Message (lit ''user'')
                  (lit ''Using the following analysis: '' @ lit ''pets''
                   @ lit '', generate a helpful and contextually appropriate response to the statement: ''
                   @ (lit ''Dogs''))]
               (lit ''m'')]\<rparr>)"
proof -
  have h1: "lit ''Dogs'' = (if dialogue rag_demo \<noteq> [] then content (last (dialogue rag_demo)) else lit '''')"
    by (simp add: demo_dialogues)
  have h2: "lit ''m'' = model (self_obj rag_demo)"
    by (simp add: rag_demo_basics)
  note t = AwsomAgent_response_private [OF h1 h2]
  have "AwsomAgent_response rag_demo
          = (Inr (lit ''cats rule''),
             rag_demo\<lparr>world := 2,
               calls :=
                 [Generate
                    [Message (lit ''system'')
                       (lit ''You are a helpful assistant that analyzes dialogue to infer intent and emotional tone.''),
                     Message (lit ''user'')
                       (lit ''Analyze the following human statement and summarize their intent, tone, and possible motivations: ''
                        @ (lit ''Dogs''))]
                    (lit ''m''),
                  Generate
                    [Message (lit ''system'')
                       (lit ''You are an assistant that responds thoughtfully to human dialogue based on analyzed context.''),
                     Message (lit ''user'')
                       (lit ''Using the following analysis: '' @ lit ''pets''
                        @ lit '', generate a helpful and contextually appropriate response to the statement: ''
                        @ (lit ''Dogs''))]
                    (lit ''m'')]\<rparr>)"
    using t [where q = "\<lparr>choices = [raw_pets]\<rparr>" and ?w1.0 = 1 and ?c1.0 = "raw_pets"
        and fr = "\<lparr>choices = [raw_cats]\<rparr>"
        and ?w2.0 = 2 and ?c2.0 = "raw_cats", THEN conjunct2, THEN conjunct1]
    by (simp add: rag_demo_basics first_content_single strip_pets strip_cats)
  with h1 h2 show ?thesis by blast
qed

text \<open>
  C7. When a generation call of RAGAgent.response or AwsomAgent.response raises, the method
  raises that same error and returns no text; the failed call is the last call made, and it
  is made once: the first call alone when the first call fails, the full sequence up to the
  second generation call when that one fails.
\<close>

theorem generation_failure_propagates:
  "(create (client (self_obj s)) (paraphrase_prompt (last_turn_of (dialogue s)))
      (model (self_obj s)) (world s) = (Inl e, w1)
    \<longrightarrow> RAGAgent_response s
          = (Inl e, s\<lparr>world := w1,
                      calls := calls s @ [Generate (paraphrase_prompt (last_turn_of (dialogue s)))
                                            (model (self_obj s))]\<rparr>))
   \<and> (create (client (self_obj s)) (paraphrase_prompt (last_turn_of (dialogue s)))
        (model (self_obj s)) (world s) = (Inr q, w1)
      \<and> first_content q = Inr c1
      \<and> closest_claims (kialo (self_obj s)) (strip c1) 3 (lit ''has_cons'') w1 = (Inr rc, w2)
      \<and> create (client (self_obj s))
          (final_prompt (join [0x0A] rc) (last_turn_of (dialogue s)))
          (model (self_obj s)) w2 = (Inl e, w3)
    \<longrightarrow> RAGAgent_response s
          = (Inl e, s\<lparr>world := w3,
                      calls := calls s @
                        [Generate (paraphrase_prompt (last_turn_of (dialogue s))) (model (self_obj s)),
                         Retrieve (strip c1) 3 (lit ''has_cons''),
                         Generate (final_prompt (join [0x0A] rc) (last_turn_of (dialogue s)))
                           (model (self_obj s))]\<rparr>))
   \<and> (create (client (self_obj s)) (thought_prompt (last_turn_of (dialogue s)))
        (model (self_obj s)) (world s) = (Inl e, w1)
    \<longrightarrow> AwsomAgent_response s
          = (Inl e, s\<lparr>world := w1,
                      calls := calls s @ [Generate (thought_prompt (last_turn_of (dialogue s)))
                                            (model (self_obj s))]\<rparr>))
   \<and> (create (client (self_obj s)) (thought_prompt (last_turn_of (dialogue s)))
        (model (self_obj s)) (world s) = (Inr q, w1)
      \<and> first_content q = Inr c1
      \<and> create (client (self_obj s))
          (response_prompt (strip c1) (last_turn_of (dialogue s)))
          (model (self_obj s)) w1 = (Inl e, w2)
    \<longrightarrow> AwsomAgent_response s
          = (Inl e, s\<lparr>world := w2,
                      calls := calls s @
                        [Generate (thought_prompt (last_turn_of (dialogue s))) (model (self_obj s)),
                         Generate (response_prompt (strip c1) (last_turn_of (dialogue s)))
                           (model (self_obj s))]\<rparr>))"
  by (intro conjI impI)
     (blast intro: RAGAgent_response_paraphrase_fails RAGAgent_response_final_fails
        AwsomAgent_response_analysis_fails AwsomAgent_response_final_fails)+

theorem generation_failure_propagates_witness:
  "RAGAgent_response fail_first
     = (Inl (Raised ''timeout''),
        fail_first\<lparr>world := 1, calls := [Generate (paraphrase_prompt (lit ''Dogs'')) (lit ''m'')]\<rparr>)
   \<and> RAGAgent_response fail_second
     = (Inl (Raised ''timeout''),
        fail_second\<lparr>world := 2,
          calls := [Generate (paraphrase_prompt (lit ''Dogs'')) (lit ''m''),
                    Retrieve (lit ''pets'') 3 (lit ''has_cons''),
                    Generate (final_prompt ((lit ''A'') @ [0x0A] @ (lit ''B'')) (lit ''Dogs'')) (lit ''m'')]\<rparr>)
   \<and> AwsomAgent_response fail_first
     = (Inl (Raised ''timeout''),
        fail_first\<lparr>world := 1, calls := [Generate (thought_prompt (lit ''Dogs'')) (lit ''m'')]\<rparr>)
   \<and> AwsomAgent_response fail_second
     = (Inl (Raised ''timeout''),
        fail_second\<lparr>world := 2,
          calls := [Generate (thought_prompt (lit ''Dogs'')) (lit ''m''),
                    Generate (response_prompt (lit ''pets'') (lit ''Dogs'')) (lit ''m'')]\<rparr>)"
proof -
  note f1 = fail_first_facts fail_first_world
  note f2 = fail_second_facts first_content_single strip_pets
  have "RAGAgent_response fail_first
     = (Inl (Raised ''timeout''),
        fail_first\<lparr>world := 1, calls := [Generate (paraphrase_prompt (lit ''Dogs'')) (lit ''m'')]\<rparr>)"
    using generation_failure_propagates [of fail_first "Raised ''timeout''" 1, THEN conjunct1]
    by (simp add: f1)
  moreover have "RAGAgent_response fail_second
     = (Inl (Raised ''timeout''),
        fail_second\<lparr>world := 2,
          calls := [Generate (paraphrase_prompt (lit ''Dogs'')) (lit ''m''),
                    Retrieve (lit ''pets'') 3 (lit ''has_cons''),
                    Generate (final_prompt ((lit ''A'') @ [0x0A] @ (lit ''B'')) (lit ''Dogs'')) (lit ''m'')]\<rparr>)"
    using generation_failure_propagates [of fail_second "Raised ''timeout''" 1
        "\<lparr>choices = [raw_pets]\<rparr>" "raw_pets" "[lit ''A'', lit ''B'']" 1 2,
        THEN conjunct2, THEN conjunct1]
    by (simp add: f2)
  moreover have "AwsomAgent_response fail_first
     = (Inl (Raised ''timeout''),
        fail_first\<lparr>world := 1, calls := [Generate (thought_prompt (lit ''Dogs'')) (lit ''m'')]\<rparr>)"
    using generation_failure_propagates [of fail_first "Raised ''timeout''" 1,
        THEN conjunct2, THEN conjunct2, THEN conjunct1]
    by (simp add: f1)
  moreover have "AwsomAgent_response fail_second
     = (Inl (Raised ''timeout''),
        fail_second\<lparr>world := 2,
          calls := [Generate (thought_prompt (lit ''Dogs'')) (lit ''m''),
                    Generate (response_prompt (lit ''pets'') (lit ''Dogs'')) (lit ''m'')]\<rparr>)"
    using generation_failure_propagates [where s = fail_second and e = "Raised ''timeout''"
        and ?w1.0 = 1 and q = "\<lparr>choices = [raw_pets]\<rparr>" and ?c1.0 = "raw_pets"
        and ?w2.0 = 2, THEN conjunct2, THEN conjunct2, THEN conjunct2]
    by (simp add: f2)
  ultimately show ?thesis by blast
qed





subsection \<open>Frame\<close>

text \<open>
  C9. A call of any of the four response methods leaves the agent object and the dialogue
  object as they were: only the world of the collaborators and the call log change.
\<close>

theorem response_frame:
  "self_obj (snd (KialoAgent_response random s)) = self_obj s
   \<and> dialogue (snd (KialoAgent_response random s)) = dialogue s
   \<and> self_obj (snd (ContextualKialoAgent_response random s)) = self_obj s
   \<and> dialogue (snd (ContextualKialoAgent_response random s)) = dialogue s
   \<and> self_obj (snd (RAGAgent_response s)) = self_obj s
   \<and> dialogue (snd (RAGAgent_response s)) = dialogue s
   \<and> self_obj (snd (AwsomAgent_response s)) = self_obj s
   \<and> dialogue (snd (AwsomAgent_response s)) = dialogue s"
  by (simp add: KialoAgent_response_frame ContextualKialoAgent_response_frame
        RAGAgent_response_frame AwsomAgent_response_frame)

end
